theory Spec2Isabelle
  imports Complex_Main "HOL-Library.Word"
begin

section \<open>JavaScript values as the two browser clients see them\<close>

text \<open>
  The repository holds two browser clients of the prediction endpoint: the React
  client (\<^verbatim>\<open>Front/src/App.jsx\<close>) and the plain-script VoiceShield client (the script
  that follows \<^verbatim>\<open>TECHNICAL_DOCUMENTATION.md\<close>). Both read a parsed JSON body, so the
  values they handle are the JSON values plus \<^verbatim>\<open>undefined\<close>. A number is given by
  its real value: a parsed JSON number is never NaN. The rounding of double arithmetic
  is not modelled, except for the product in the VoiceShield script, which is the
  engine's.
\<close>

datatype jsval =
    JUndefined
  | JNull
  | JBool bool
  | JNum real
  | JStr string
  | JArr "jsval list"
  | JObj "(string \<times> jsval) list"

text \<open>Truthiness, as \<^verbatim>\<open>!x\<close>, \<^verbatim>\<open>x || y\<close> and \<^verbatim>\<open>x && y\<close> test it.\<close>

fun truthy :: "jsval \<Rightarrow> bool" where
  "truthy JUndefined = False"
| "truthy JNull = False"
| "truthy (JBool b) = b"
| "truthy (JNum x) = (x \<noteq> 0)"
| "truthy (JStr s) = (s \<noteq> [])"
| "truthy (JArr xs) = True"
| "truthy (JObj kvs) = True"

text \<open>\<^verbatim>\<open>a || b\<close>: the left operand when it is truthy, the right one otherwise.\<close>

definition js_or :: "jsval \<Rightarrow> jsval \<Rightarrow> jsval" where
  "js_or a b = (if truthy a then a else b)"

text \<open>
  Reading a property of a value that is neither \<^verbatim>\<open>null\<close> nor \<^verbatim>\<open>undefined\<close>. A parsed
  object keeps the last value of a repeated key; a missing key reads as
  \<^verbatim>\<open>undefined\<close>. None of the property names the clients read (\<^verbatim>\<open>success\<close>,
  \<^verbatim>\<open>prediction\<close>, \<^verbatim>\<open>label\<close>, \<^verbatim>\<open>confidence\<close>, \<^verbatim>\<open>audio_info\<close>,
  \<^verbatim>\<open>processing_time_seconds\<close>, \<^verbatim>\<open>error\<close>, \<^verbatim>\<open>detail\<close>) exists on a boolean, a number,
  a string or an array, so those read as \<^verbatim>\<open>undefined\<close> too.
\<close>

fun lookup :: "jsval \<Rightarrow> string \<Rightarrow> jsval" where
  "lookup (JObj kvs) k = (case map_of (rev kvs) k of None \<Rightarrow> JUndefined | Some v \<Rightarrow> v)"
| "lookup v k = JUndefined"

text \<open>
  A thrown value is an \<^verbatim>\<open>Error\<close> (or \<^verbatim>\<open>TypeError\<close>, \<^verbatim>\<open>SyntaxError\<close>); the clients
  only ever read its \<^verbatim>\<open>message\<close>.
\<close>

datatype exn = Exn (message: string)

text \<open>
  What the JavaScript engine contributes and the source does not spell out: the string
  conversion of a value that is not a string (the argument of \<^verbatim>\<open>new Error(...)\<close>), the
  number conversion of a value that is not a number (the operand of \<^verbatim>\<open>*\<close> and of
  \<^verbatim>\<open>Math.round\<close>; \<open>None\<close> is NaN), the message of the \<^verbatim>\<open>TypeError\<close> raised by
  reading a property of \<^verbatim>\<open>null\<close> or \<^verbatim>\<open>undefined\<close>, and the product \<^verbatim>\<open>a * b\<close> of two
  numbers, which is the exact product rounded to a double.
\<close>

record engine =
  ToString_other :: "jsval \<Rightarrow> string"
  ToNumber_other :: "jsval \<Rightarrow> real option"
  nullReadMessage :: "string \<Rightarrow> string"
  fmul :: "real \<Rightarrow> real \<Rightarrow> real"

definition js_ToString :: "engine \<Rightarrow> jsval \<Rightarrow> string" where
  "js_ToString eng v = (case v of JStr s \<Rightarrow> s | _ \<Rightarrow> ToString_other eng v)"

definition js_ToNumber :: "engine \<Rightarrow> jsval \<Rightarrow> real option" where
  "js_ToNumber eng v = (case v of JNum x \<Rightarrow> Some x | _ \<Rightarrow> ToNumber_other eng v)"

text \<open>\<^verbatim>\<open>v.k\<close>: a \<^verbatim>\<open>TypeError\<close> on \<^verbatim>\<open>null\<close> and \<^verbatim>\<open>undefined\<close>, the property otherwise.\<close>

definition get_prop :: "engine \<Rightarrow> jsval \<Rightarrow> string \<Rightarrow> exn + jsval" where
  "get_prop eng v k =
     (if v = JNull \<or> v = JUndefined then Inl (Exn (nullReadMessage eng k))
      else Inr (lookup v k))"

text \<open>The decimal digits of an HTTP status code inside a template literal.\<close>

fun decimal :: "nat \<Rightarrow> string" where
  "decimal n =
     (if n < 10 then [''0123456789'' ! n]
      else decimal (n div 10) @ [''0123456789'' ! (n mod 10)])"

declare decimal.simps [simp del]

text \<open>
  What React accepts as a child of an element: strings and numbers are printed,
  \<^verbatim>\<open>null\<close>, \<^verbatim>\<open>undefined\<close> and booleans print nothing, an array is rendered child by
  child, and a plain object makes the rendering throw.
\<close>

fun renderable :: "jsval \<Rightarrow> bool" where
  "renderable (JObj kvs) = False"
| "renderable (JArr xs) = (\<forall>x \<in> set xs. renderable x)"
| "renderable v = True"

text \<open>A component either throws while it is rendered or renders to a view.\<close>

datatype 'a rendering = Throws | Renders 'a

section \<open>Files, requests and what the network answers\<close>

text \<open>A browser \<^verbatim>\<open>File\<close>: its name and its bytes (\<^verbatim>\<open>file.size\<close> is their number).\<close>

record File =
  name :: string
  bytes :: "8 word list"

text \<open>
  The call \<^verbatim>\<open>fetch(url, {method, body: formData, headers})\<close>. The body is the list of
  the fields appended to the \<^verbatim>\<open>FormData\<close>, which the browser sends as multipart form
  data.
\<close>

record request =
  req_url :: string
  req_method :: string
  req_body :: "(string \<times> File) list"
  req_headers :: "(string \<times> string) list"

text \<open>
  The body of a response either parses as JSON or makes \<^verbatim>\<open>response.json()\<close> reject
  with a \<^verbatim>\<open>SyntaxError\<close> carrying a message. A \<^verbatim>\<open>fetch\<close> either rejects (network
  failure) with a message or resolves to a response with a status and a body.
\<close>

datatype body = NotJson string | Json jsval

datatype fetch_outcome = Rejected string | Response nat body

text \<open>\<^verbatim>\<open>response.ok\<close>: the status is in the range 200 to 299.\<close>

definition response_ok :: "nat \<Rightarrow> bool" where
  "response_ok status = (200 \<le> status \<and> status \<le> 299)"

section \<open>The React client (App.jsx)\<close>

subsection \<open>CircularConfidence\<close>

text \<open>\<^verbatim>\<open>Math.round\<close>: the nearest integer, a tie going up.\<close>

definition Math_round :: "real \<Rightarrow> int" where
  "Math_round x = \<lfloor>x + 1 / 2\<rfloor>"

text \<open>\<^verbatim>\<open>Math.PI\<close>, the double nearest to the circle constant.\<close>

definition Math_PI :: real where
  "Math_PI = 884279719003555 / 281474976710656"

definition radius :: real where
  "radius = 48"

definition normalized :: "real \<Rightarrow> int" where
  "normalized v = max 0 (min 100 (Math_round v))"

definition c :: real where
  "c = 2 * Math_PI * radius"

definition dash :: "real \<Rightarrow> real" where
  "dash v = c * (real_of_int (normalized v) / 100)"

text \<open>
  What the component draws: the text \<^verbatim>\<open>{normalized}%\<close> and the progress circle's
  \<^verbatim>\<open>strokeDasharray\<close>, \<^verbatim>\<open>`${dash} ${c-dash}`\<close>.
\<close>

record circle_view =
  percent_text :: int
  dash_drawn :: real
  dash_gap :: real

definition CircularConfidence :: "real \<Rightarrow> circle_view" where
  "CircularConfidence v =
     \<lparr>percent_text = normalized v, dash_drawn = dash v, dash_gap = c - dash v\<rparr>"

subsection \<open>ResultCard\<close>

text \<open>
  The card is not rendered while \<^verbatim>\<open>result\<close> is falsy. Otherwise it shows the label in
  its badge, the dial of \<^verbatim>\<open>CircularConfidence\<close> for the confidence (\<open>None\<close> when
  the confidence converts to NaN), the processing time as
  \<^verbatim>\<open>processingTime.toFixed(2)\<close>, and the sentence ending in
  \<^verbatim>\<open>Model confidence: {confidence}%\<close>, where the confidence is printed as it is.
  Only a number has the method \<^verbatim>\<open>toFixed\<close>: with any other processing time the call
  throws. The view keeps the number that is printed with two decimals.
\<close>

record card_view =
  badge :: jsval
  fake :: bool
  dial :: "circle_view option"
  time_printed :: real
  confidence_text :: jsval

definition ResultCard ::
  "engine \<Rightarrow> jsval \<Rightarrow> jsval \<Rightarrow> jsval \<Rightarrow> card_view option rendering" where
  "ResultCard eng result confidence processingTime =
     (if \<not> truthy result then Renders None
      else
        (case processingTime of
           JNum t \<Rightarrow>
             if renderable result \<and> renderable confidence then
               Renders (Some \<lparr>badge = result,
                              fake = (result = JStr ''FAKE''),
                              dial = map_option CircularConfidence (js_ToNumber eng confidence),
                              time_printed = t,
                              confidence_text = confidence\<rparr>)
             else Throws
         | _ \<Rightarrow> Throws))"

subsection \<open>StatsCards\<close>

text \<open>The dash that stands for a missing value, in UTF-8.\<close>

definition dash_text :: string where
  "dash_text = [CHR 0xE2, CHR 0x80, CHR 0x94]"

text \<open>
  The three cells. The first has two children, the duration and, unless that is the
  dash, the letter \<^verbatim>\<open>s\<close>; the other two hold one string each. \<^verbatim>\<open>audioInfo?.k\<close> reads
  as \<^verbatim>\<open>undefined\<close> on \<^verbatim>\<open>null\<close> and \<^verbatim>\<open>undefined\<close>, as \<open>lookup\<close> does.
\<close>

record stats_view =
  duration_cell :: "jsval list"
  sample_rate_cell :: string
  size_cell :: string

definition StatsCards :: "engine \<Rightarrow> File option \<Rightarrow> jsval \<Rightarrow> stats_view rendering" where
  "StatsCards eng file audioInfo =
     (let duration = js_or (lookup audioInfo ''duration'') (JStr dash_text);
          sampleRate = js_or (lookup audioInfo ''sample_rate'') (JStr dash_text);
          size =
            (if truthy (lookup audioInfo ''file_size'') then
               js_ToString eng (lookup audioInfo ''file_size'') @ '' KB''
             else
               (case file of
                  Some f \<Rightarrow>
                    decimal (nat (max 10 (Math_round (real (length (bytes f)) / 1024)))) @
                    '' KB''
                | None \<Rightarrow> dash_text))
      in if \<not> renderable duration then Throws
         else Renders
           \<lparr>duration_cell =
              [duration, if duration \<noteq> JStr dash_text then JStr ''s'' else JBool False],
            sample_rate_cell =
              (if sampleRate \<noteq> JStr dash_text then js_ToString eng sampleRate @ ''Hz''
               else dash_text),
            size_cell = size\<rparr>)"

subsection \<open>The state of App and its setters\<close>

text \<open>The field \<open>file_state\<close> is the state variable \<^verbatim>\<open>file\<close>.\<close>

record app_state =
  file_state :: "File option"
  processing :: bool
  result :: jsval
  confidence :: jsval
  error :: jsval
  audioInfo :: jsval
  processingTime :: jsval

text \<open>The \<^verbatim>\<open>useState\<close> initial values.\<close>

definition App_init :: app_state where
  "App_init =
     \<lparr>file_state = None, processing = False, result = JNull, confidence = JNum 0,
      error = JNull, audioInfo = JNull, processingTime = JNum 0\<rparr>"

text \<open>
  Every change of the state is a call of one of the seven setters, each of which
  overwrites one field. A handler is modelled as the list of the setter calls it makes,
  in the order of the source.
\<close>

datatype setter =
    setFile File
  | setProcessing bool
  | setResult jsval
  | setConfidence jsval
  | setError jsval
  | setAudioInfo jsval
  | setProcessingTime jsval

fun apply_setter :: "app_state \<Rightarrow> setter \<Rightarrow> app_state" where
  "apply_setter s (setFile f) = s\<lparr>file_state := Some f\<rparr>"
| "apply_setter s (setProcessing b) = s\<lparr>processing := b\<rparr>"
| "apply_setter s (setResult v) = s\<lparr>result := v\<rparr>"
| "apply_setter s (setConfidence v) = s\<lparr>confidence := v\<rparr>"
| "apply_setter s (setError v) = s\<lparr>error := v\<rparr>"
| "apply_setter s (setAudioInfo v) = s\<lparr>audioInfo := v\<rparr>"
| "apply_setter s (setProcessingTime v) = s\<lparr>processingTime := v\<rparr>"

definition apply_setters :: "app_state \<Rightarrow> setter list \<Rightarrow> app_state" where
  "apply_setters s cs = foldl apply_setter s cs"



subsection \<open>handleFile and the FileUploader\<close>

definition handleFile_calls :: "File \<Rightarrow> setter list" where
  "handleFile_calls f =
     [setFile f, setResult JNull, setConfidence (JNum 0), setError JNull, setAudioInfo JNull]"

definition handleFile :: "File \<Rightarrow> app_state \<Rightarrow> app_state" where
  "handleFile f s = apply_setters s (handleFile_calls f)"

text \<open>
  \<^verbatim>\<open>handleFiles(files)\<close> of the FileUploader, with \<^verbatim>\<open>onFile\<close> bound to
  \<^verbatim>\<open>handleFile\<close>: the first file of the dropped or chosen list, if there is one, is
  handed over; the empty list also stands for a missing list.
\<close>

fun handleFiles :: "File list \<Rightarrow> app_state \<Rightarrow> app_state" where
  "handleFiles [] s = s"
| "handleFiles (f # fs) s = handleFile f s"

subsection \<open>analyze\<close>

text \<open>
  \<^verbatim>\<open>API_BASE_URL\<close> is the build-time variable \<^verbatim>\<open>VITE_API_URL\<close> unless that is unset
  or empty.
\<close>

definition API_BASE_URL :: "string option \<Rightarrow> string" where
  "API_BASE_URL vite =
     (case vite of
        None \<Rightarrow> ''http://localhost:5000''
      | Some u \<Rightarrow> if u \<noteq> [] then u else ''http://localhost:5000'')"

text \<open>The request that \<^verbatim>\<open>analyze\<close> builds for the file of the state.\<close>

definition analyze_request :: "string option \<Rightarrow> File \<Rightarrow> request" where
  "analyze_request vite f =
     \<lparr>req_url = API_BASE_URL vite @ ''/api/predict'',
      req_method = ''POST'',
      req_body = [(''file'', f)],
      req_headers = [(''Accept'', ''application/json'')]\<rparr>"

text \<open>The four setter calls before the \<^verbatim>\<open>try\<close> block.\<close>

definition analyze_begin_calls :: "setter list" where
  "analyze_begin_calls =
     [setProcessing True, setResult JNull, setConfidence (JNum 0), setError JNull]"

text \<open>
  The \<^verbatim>\<open>try\<close> block once the \<^verbatim>\<open>fetch\<close> has settled, given the two readings of
  \<^verbatim>\<open>performance.now()\<close>: either something is thrown, which in every case happens
  before the block has called a setter, or the block runs to its end and has made the
  setter calls returned.
\<close>

definition analyze_try :: "engine \<Rightarrow> fetch_outcome \<Rightarrow> real \<Rightarrow> real \<Rightarrow> exn + setter list" where
  "analyze_try eng outcome startTime endTime =
     (case outcome of
        Rejected m \<Rightarrow> Inl (Exn m)
      | Response status b \<Rightarrow>
          if \<not> response_ok status then
            (case b of
               NotJson m \<Rightarrow> Inl (Exn m)
             | Json errData \<Rightarrow>
                 (case get_prop eng errData ''error'' of
                    Inl e \<Rightarrow> Inl e
                  | Inr v \<Rightarrow>
                      Inl (Exn (js_ToString eng
                        (js_or v (JStr (''API error: '' @ decimal status)))))))
          else
            (case b of
               NotJson m \<Rightarrow> Inl (Exn m)
             | Json data \<Rightarrow>
                 (case get_prop eng data ''success'' of
                    Inl e \<Rightarrow> Inl e
                  | Inr success \<Rightarrow>
                      if truthy success then
                        Inr [setResult (lookup data ''prediction''),
                             setConfidence (lookup data ''confidence''),
                             setAudioInfo (lookup data ''audio_info''),
                             setProcessingTime
                               (js_or (lookup data ''processing_time_seconds'')
                                      (JNum ((endTime - startTime) / 1000)))]
                      else
                        Inr [setError (js_or (lookup data ''error'')
                                             (JStr ''Prediction failed''))])))"

text \<open>The \<^verbatim>\<open>catch\<close> clause and the \<^verbatim>\<open>finally\<close> clause.\<close>

definition analyze_catch :: "exn \<Rightarrow> setter list" where
  "analyze_catch err =
     [setError (js_or (JStr (message err))
        (JStr ''Failed to connect to API. Make sure the backend is running on port 5000.''))]"

definition analyze_finally :: "setter list" where
  "analyze_finally = [setProcessing False]"

text \<open>All the setter calls made after the \<^verbatim>\<open>fetch\<close> has settled.\<close>

definition analyze_settle_calls :: "engine \<Rightarrow> fetch_outcome \<Rightarrow> real \<Rightarrow> real \<Rightarrow> setter list" where
  "analyze_settle_calls eng outcome startTime endTime =
     (case analyze_try eng outcome startTime endTime of
        Inr cs \<Rightarrow> cs
      | Inl err \<Rightarrow> analyze_catch err) @ analyze_finally"

text \<open>
  The world around one run of \<^verbatim>\<open>analyze\<close>: the engine, the build-time variable, how
  the network settles the request, and the clock readings before and after.
\<close>

record world =
  js :: engine
  VITE_API_URL :: "string option"
  fetch :: "request \<Rightarrow> fetch_outcome"
  startTime :: real
  endTime :: real

text \<open>
  One whole run of \<^verbatim>\<open>analyze\<close>: the state it leaves and the requests it has sent.
  Without a file it returns at once.
\<close>

definition analyze :: "world \<Rightarrow> app_state \<Rightarrow> app_state \<times> request list" where
  "analyze w s =
     (case file_state s of
        None \<Rightarrow> (s, [])
      | Some f \<Rightarrow>
          (let req = analyze_request (VITE_API_URL w) f
           in (apply_setters s
                 (analyze_begin_calls @
                  analyze_settle_calls (js w) (fetch w req) (startTime w) (endTime w)),
               [req])))"

text \<open>The error panel is rendered, with the value of \<^verbatim>\<open>error\<close> as its text, while that is truthy.\<close>

definition error_panel :: "app_state \<Rightarrow> jsval option" where
  "error_panel s = (if truthy (error s) then Some (error s) else None)"

subsection \<open>What App renders\<close>

text \<open>
  The elements of the page that have a handler: the drop zone and the file input
  (both call \<^verbatim>\<open>handleFiles\<close>), the button that opens the file input, and the Analyze
  button (\<^verbatim>\<open>analyze\<close>).
\<close>

datatype control = DropZone | FileInput | BrowseButton | AnalyzeButton

text \<open>
  The error panel consists of an icon, the title \<^verbatim>\<open>Error\<close> and the text; none of its
  elements has a handler.
\<close>

record panel_view =
  panel_title :: string
  panel_text :: jsval
  panel_controls :: "control list"

definition error_panel_view :: "app_state \<Rightarrow> panel_view option" where
  "error_panel_view s =
     map_option (\<lambda>e. \<lparr>panel_title = ''Error'', panel_text = e, panel_controls = []\<rparr>)
       (error_panel s)"

text \<open>
  The parts of the page that depend on the state: the error panel, the result card
  and, while \<^verbatim>\<open>result\<close> is truthy, the cells of \<^verbatim>\<open>StatsCards\<close> (the two charts
  beside them draw fixed data). There is no panel while \<^verbatim>\<open>error\<close> is falsy; the
  text of the panel is a child like any other. When a part throws, the rendering of
  the page throws.
\<close>

record app_view =
  panel :: "panel_view option"
  card :: "card_view option"
  stats :: "stats_view option"

definition App_render :: "engine \<Rightarrow> app_state \<Rightarrow> app_view rendering" where
  "App_render eng s =
     (if truthy (error s) \<and> \<not> renderable (error s) then Throws
      else
        (case ResultCard eng (result s) (confidence s) (processingTime s) of
           Throws \<Rightarrow> Throws
         | Renders cv \<Rightarrow>
             if truthy (result s) then
               (case StatsCards eng (file_state s) (audioInfo s) of
                  Throws \<Rightarrow> Throws
                | Renders sv \<Rightarrow>
                    Renders \<lparr>panel = error_panel_view s, card = cv, stats = Some sv\<rparr>)
             else Renders \<lparr>panel = error_panel_view s, card = cv, stats = None\<rparr>))"

text \<open>
  \<^verbatim>\<open>err.message || '...'\<close> in the \<^verbatim>\<open>catch\<close> clause, as a function of the message.
\<close>

definition or_connect_failed :: "string \<Rightarrow> string" where
  "or_connect_failed m =
     (if m \<noteq> [] then m
      else ''Failed to connect to API. Make sure the backend is running on port 5000.'')"

text \<open>
  The page renders, and all it shows of a run is the error panel with the text \<open>e\<close>.
\<close>

definition shows_error :: "engine \<Rightarrow> app_state \<Rightarrow> jsval \<Rightarrow> bool" where
  "shows_error eng s e =
     (error s = e \<and>
      App_render eng s =
        Renders \<lparr>panel = Some \<lparr>panel_title = ''Error'', panel_text = e, panel_controls = []\<rparr>,
                 card = None, stats = None\<rparr>)"

subsection \<open>The component as a machine\<close>

text \<open>
  Between the call of \<^verbatim>\<open>fetch\<close> and its settling the component is rendered and takes
  events. The events are: a file is dropped or chosen; the Analyze button is clicked,
  which the button's \<^verbatim>\<open>disabled={!file || processing}\<close> and the guard of \<^verbatim>\<open>analyze\<close>
  turn into nothing without a file or during a run; and the request of the run in
  progress settles.
\<close>

datatype event =
    SelectFile File
  | ClickAnalyze
  | Settle fetch_outcome real real

fun step :: "engine \<Rightarrow> app_state \<Rightarrow> event \<Rightarrow> app_state" where
  "step eng s (SelectFile f) = handleFile f s"
| "step eng s ClickAnalyze =
     (if file_state s = None \<or> processing s then s else apply_setters s analyze_begin_calls)"
| "step eng s (Settle outcome t0 t1) =
     (if processing s then apply_setters s (analyze_settle_calls eng outcome t0 t1) else s)"

definition run :: "engine \<Rightarrow> event list \<Rightarrow> app_state" where
  "run eng es = foldl (step eng) App_init es"


section \<open>The VoiceShield client (the script after TECHNICAL_DOCUMENTATION.md)\<close>

subsection \<open>String operations\<close>

text \<open>
  \<^verbatim>\<open>s.split(".")\<close>: the pieces of the string between the separators; there is always at
  least one piece.
\<close>

fun split_from :: "char \<Rightarrow> string \<Rightarrow> string \<Rightarrow> string list" where
  "split_from sep piece [] = [piece]"
| "split_from sep piece (ch # cs) =
     (if ch = sep then piece # split_from sep [] cs
      else split_from sep (piece @ [ch]) cs)"

definition js_split :: "char \<Rightarrow> string \<Rightarrow> string list" where
  "js_split sep s = split_from sep [] s"

text \<open>\<^verbatim>\<open>toLowerCase\<close>, on the letters of ASCII.\<close>

definition lower :: "char \<Rightarrow> char" where
  "lower ch =
     (case map_of (zip ''ABCDEFGHIJKLMNOPQRSTUVWXYZ'' ''abcdefghijklmnopqrstuvwxyz'') ch of
        None \<Rightarrow> ch
      | Some l \<Rightarrow> l)"

definition toLowerCase :: "string \<Rightarrow> string" where
  "toLowerCase s = map lower s"

text \<open>\<^verbatim>\<open>xs.join(sep)\<close>.\<close>

fun join :: "string \<Rightarrow> string list \<Rightarrow> string" where
  "join sep [] = []"
| "join sep [x] = x"
| "join sep (x # y # ys) = x @ sep @ join sep (y # ys)"

text \<open>\<^verbatim>\<open>s.includes(t)\<close>: \<open>t\<close> occurs in \<open>s\<close> as a contiguous piece.\<close>

fun js_includes :: "string \<Rightarrow> string \<Rightarrow> bool" where
  "js_includes [] t = (t = [])"
| "js_includes (ch # cs) t = (take (length t) (ch # cs) = t \<or> js_includes cs t)"

text \<open>
  \<^verbatim>\<open>x.toFixed(1)\<close>, as the number that the printed decimal denotes: the sign is set
  aside, and of the two nearest tenths the larger is taken. (From \<open>10^21\<close> on the
  method prints in exponent form, which denotes the number itself; percentages are far
  below.)
\<close>

definition toFixed1 :: "real \<Rightarrow> real" where
  "toFixed1 x =
     (if x < 0 then - (real_of_int \<lfloor>(- x) * 10 + 1 / 2\<rfloor> / 10)
      else real_of_int \<lfloor>x * 10 + 1 / 2\<rfloor> / 10)"

subsection \<open>The page state\<close>

text \<open>
  The variable \<^verbatim>\<open>selectedFile\<close> and the parts of the page the script writes: texts,
  the \<^verbatim>\<open>show\<close> classes, the class of the result box (\<open>Some True\<close> for
  \<^verbatim>\<open>result--real\<close>, \<open>Some False\<close> for \<^verbatim>\<open>result--fake\<close>), the badge (verified or
  warning), and the percentage printed in \<^verbatim>\<open>confText\<close> and given to the progress bar
  (\<open>None\<close> when it prints as NaN).
\<close>

record vs_state =
  selectedFile :: "File option"
  fileNameEl :: string
  dropZone_has_file :: bool
  predictBtn_disabled :: bool
  audioPlayer_src :: "File option"
  audioPreview_show :: bool
  spinner_show :: bool
  statusMsg_text :: string
  statusMsg_type :: string
  statusMsg_show :: bool
  result_show :: bool
  result_real :: "bool option"
  resultBadge_verified :: bool
  resultLabel :: jsval
  confText :: "real option"
  progressFill :: "real option"

definition showStatus :: "string \<Rightarrow> string \<Rightarrow> vs_state \<Rightarrow> vs_state" where
  "showStatus msg type s =
     s\<lparr>statusMsg_text := msg, statusMsg_type := type, statusMsg_show := True\<rparr>"

definition hideStatus :: "vs_state \<Rightarrow> vs_state" where
  "hideStatus s = s\<lparr>statusMsg_show := False\<rparr>"

definition hideResult :: "vs_state \<Rightarrow> vs_state" where
  "hideResult s = s\<lparr>result_show := False, result_real := None\<rparr>"

text \<open>
  \<^verbatim>\<open>showResult(label, confidence)\<close>; the parameters are \<open>lab\<close> and \<open>conf\<close> here.
  The percentage is \<^verbatim>\<open>(confidence * 100).toFixed(1)\<close>, with the product of the engine.
\<close>

definition showResult :: "engine \<Rightarrow> jsval \<Rightarrow> jsval \<Rightarrow> vs_state \<Rightarrow> vs_state" where
  "showResult eng lab conf s =
     (let pct = map_option (\<lambda>x. toFixed1 (fmul eng x 100)) (js_ToNumber eng conf);
          isReal = (lab = JStr ''REAL'')
      in s\<lparr>result_show := True,
            result_real := Some isReal,
            resultBadge_verified := isReal,
            resultLabel := lab,
            confText := pct,
            progressFill := pct\<rparr>)"

subsection \<open>handleFile\<close>

definition allowed :: "string list" where
  "allowed = [''wav'', ''flac'', ''mp3'', ''m4a'', ''ogg'']"

definition ext_of :: "File \<Rightarrow> string" where
  "ext_of f = toLowerCase (last (js_split (CHR ''.'') (name f)))"

text \<open>
  The script's \<^verbatim>\<open>handleFile\<close>, called with the first file of a drop or of the file
  input; \<open>None\<close> is the call without a file.
\<close>

definition vs_handleFile :: "File option \<Rightarrow> vs_state \<Rightarrow> vs_state" where
  "vs_handleFile file s =
     (case file of
        None \<Rightarrow> s
      | Some f \<Rightarrow>
          if ext_of f \<notin> set allowed then
            showStatus
              (''Invalid file type '' @ [CHR 0x22] @ ''.'' @ ext_of f @ [CHR 0x22] @
               ''. Accepted: '' @ join '', '' allowed)
              ''warn'' s
          else
            (hideResult (hideStatus (s\<lparr>selectedFile := Some f\<rparr>)))
              \<lparr>fileNameEl := name f,
               dropZone_has_file := True,
               predictBtn_disabled := False,
               audioPlayer_src := Some f,
               audioPreview_show := True\<rparr>)"

subsection \<open>The click handler of the predict button\<close>

definition API_URL :: string where
  "API_URL = ''http://127.0.0.1:8000/predict''"

definition predict_request :: "File \<Rightarrow> request" where
  "predict_request f =
     \<lparr>req_url = API_URL, req_method = ''POST'', req_body = [(''file'', f)],
      req_headers = []\<rparr>"

text \<open>
  The \<^verbatim>\<open>try\<close> block: something is thrown, or \<^verbatim>\<open>showResult\<close> has run. A body of a
  failed response that does not parse is replaced by the empty object.
\<close>

definition predict_try :: "engine \<Rightarrow> fetch_outcome \<Rightarrow> vs_state \<Rightarrow> exn + vs_state" where
  "predict_try eng outcome s =
     (case outcome of
        Rejected m \<Rightarrow> Inl (Exn m)
      | Response status b \<Rightarrow>
          if \<not> response_ok status then
            (case get_prop eng (case b of NotJson m \<Rightarrow> JObj [] | Json v \<Rightarrow> v) ''detail'' of
               Inl e \<Rightarrow> Inl e
             | Inr v \<Rightarrow>
                 Inl (Exn (js_ToString eng
                   (js_or v (JStr (''Server error ('' @ decimal status @ '')''))))))
          else
            (case b of
               NotJson m \<Rightarrow> Inl (Exn m)
             | Json data \<Rightarrow>
                 (case get_prop eng data ''label'' of
                    Inl e \<Rightarrow> Inl e
                  | Inr lab \<Rightarrow> Inr (showResult eng lab (lookup data ''confidence'') s))))"

definition predict_catch :: "exn \<Rightarrow> vs_state \<Rightarrow> vs_state" where
  "predict_catch err s =
     (if js_includes (message err) ''Failed to fetch'' then
        showStatus ''Cannot reach server. Is run_server.py running?'' ''error'' s
      else showStatus (message err) ''error'' s)"

text \<open>The text that the \<^verbatim>\<open>catch\<close> clause shows, as a function of the message.\<close>

definition or_cannot_reach :: "string \<Rightarrow> string" where
  "or_cannot_reach m =
     (if js_includes m ''Failed to fetch''
      then ''Cannot reach server. Is run_server.py running?'' else m)"

definition predict_finally :: "vs_state \<Rightarrow> vs_state" where
  "predict_finally s = s\<lparr>spinner_show := False, predictBtn_disabled := False\<rparr>"

text \<open>One whole run of the handler: the page it leaves and the requests it has sent.\<close>

definition predict_click :: "world \<Rightarrow> vs_state \<Rightarrow> vs_state \<times> request list" where
  "predict_click w s =
     (case selectedFile s of
        None \<Rightarrow> (s, [])
      | Some f \<Rightarrow>
          (let s1 = hideStatus (hideResult (s\<lparr>predictBtn_disabled := True, spinner_show := True\<rparr>));
               req = predict_request f;
               s2 = (case predict_try (js w) (fetch w req) s1 of
                       Inr s' \<Rightarrow> s'
                     | Inl err \<Rightarrow> predict_catch err s1)
           in (predict_finally s2, [req])))"

text \<open>The status line is visible, with its text, while it has the \<^verbatim>\<open>show\<close> class.\<close>

definition status_shown :: "vs_state \<Rightarrow> string option" where
  "status_shown s = (if statusMsg_show s then Some (statusMsg_text s) else None)"

section \<open>The prediction service\<close>

text \<open>
  The service (\<^verbatim>\<open>Backend/app.py\<close>) is not among the sources; the two parts of it that
  are needed here follow the specification.
\<close>

datatype Label = REAL | FAKE

record PredictionResult =
  label :: Label
  confidencePercent :: real

text \<open>
  Modelled from the spec: the server's score interpretation, which is missing from the
  sources. ResultInterpreter is the pure function from the score to the result with
  the decision rule \<^verbatim>\<open>score > 0.5\<close> gives FAKE, else REAL, and the confidence
  \<^verbatim>\<open>score * 100\<close> for FAKE and \<^verbatim>\<open>(1 - score) * 100\<close> for REAL.
\<close>

definition ResultInterpreter :: "real \<Rightarrow> PredictionResult" where
  "ResultInterpreter score =
     (if score > 5 / 10 then \<lparr>label = FAKE, confidencePercent = score * 100\<rparr>
      else \<lparr>label = REAL, confidencePercent = (1 - score) * 100\<rparr>)"

datatype service_error =
    UnsupportedFormatError
  | CorruptAudioError
  | PayloadTooLargeError
  | FeatureExtractionError
  | ShapeMismatchError
  | ModelNotLoadedError

text \<open>An upload as the service receives it: the declared file name and the number of bytes.\<close>

record upload =
  filename :: string
  size_bytes :: nat

text \<open>What a request leaves behind: how often decoding was attempted, and the response.\<close>

record service_run =
  decode_attempts :: nat
  response :: "service_error + PredictionResult"

text \<open>
  Modelled from the spec: the maximum upload size of the service, which is missing from
  the sources. The spec names 30 MB as the fixed threshold; it is taken as
  \<open>30 * 1024 * 1024\<close> bytes.
\<close>

definition MAX_SIZE :: nat where
  "MAX_SIZE = 30 * 1024 * 1024"

text \<open>
  Modelled from the spec: the size check of PredictionService, which is missing from the
  sources. The service rejects with PayloadTooLargeError above a fixed threshold before
  attempting decode; otherwise it runs the stages from decoding to inference, here the
  parameter \<open>stages\<close>, turns a failure of a stage into an error response, and
  interprets the score. The threshold is the parameter \<open>max_size\<close>.
\<close>

definition PredictionService ::
  "nat \<Rightarrow> (upload \<Rightarrow> service_error + real) \<Rightarrow> upload \<Rightarrow> service_run" where
  "PredictionService max_size stages u =
     (if size_bytes u > max_size then
        \<lparr>decode_attempts = 0, response = Inl PayloadTooLargeError\<rparr>
      else
        \<lparr>decode_attempts = 1,
         response = (case stages u of
                       Inl e \<Rightarrow> Inl e
                     | Inr score \<Rightarrow> Inr (ResultInterpreter score))\<rparr>)"

section \<open>Sample inputs\<close>

text \<open>
  An engine, a world that settles every request in a given way, two files and an empty
  page, for evaluating the clients at concrete inputs. The product of the sample engine
  is exact; that is the product of every engine where the exact product is a double,
  as it is for the confidences of \<open>spec_body\<close> and \<open>vs_body\<close> below.
\<close>

definition engine0 :: engine where
  "engine0 =
     \<lparr>ToString_other = (\<lambda>v. ''[object Object]''),
      ToNumber_other = (\<lambda>v. None),
      nullReadMessage = (\<lambda>k. ''Cannot read properties of null (reading '' @ k @ '')''),
      fmul = (\<lambda>a b. a * b)\<rparr>"

definition world_of :: "fetch_outcome \<Rightarrow> world" where
  "world_of outcome =
     \<lparr>js = engine0, VITE_API_URL = None, fetch = (\<lambda>req. outcome),
      startTime = 1000, endTime = 1905\<rparr>"

definition clip :: File where
  "clip = \<lparr>name = ''clip.wav'', bytes = [82, 73, 70, 70]\<rparr>"

definition notes_txt :: File where
  "notes_txt = \<lparr>name = ''notes.txt'', bytes = [104, 105]\<rparr>"

definition page0 :: vs_state where
  "page0 =
     \<lparr>selectedFile = None, fileNameEl = [], dropZone_has_file = False,
      predictBtn_disabled = True, audioPlayer_src = None, audioPreview_show = False,
      spinner_show = False, statusMsg_text = [], statusMsg_type = [],
      statusMsg_show = False, result_show = False, result_real = None,
      resultBadge_verified = False, resultLabel = JUndefined, confText = None,
      progressFill = None\<rparr>"

text \<open>A success response of the Flask service, as its documentation shows it.\<close>

definition ok_body :: jsval where
  "ok_body =
     JObj [(''prediction'', JStr ''FAKE''), (''confidence'', JNum (921 / 10)),
           (''audio_info'', JObj [(''duration'', JNum (234 / 100))]),
           (''processing_time_seconds'', JNum (82 / 100)), (''success'', JBool True)]"


text \<open>An error response in the format of the interface description.\<close>

definition error_body :: jsval where
  "error_body = JObj [(''error'', JStr ''Unsupported file format''), (''success'', JBool False)]"


section \<open>Properties\<close>

subsection \<open>Setter lists\<close>

lemma apply_setters_Nil [simp]: "apply_setters s [] = s"
  by (simp add: apply_setters_def)

lemma apply_setters_Cons [simp]:
  "apply_setters s (x # xs) = apply_setters (apply_setter s x) xs"
  by (simp add: apply_setters_def)

lemma apply_setters_append:
  "apply_setters s (xs @ ys) = apply_setters (apply_setters s xs) ys"
  by (simp add: apply_setters_def)

lemma analyze_Some:
  "file_state s = Some f \<Longrightarrow>
   analyze w s =
     (apply_setters (apply_setters s analyze_begin_calls)
        (analyze_settle_calls (js w) (fetch w (analyze_request (VITE_API_URL w) f))
           (startTime w) (endTime w)),
      [analyze_request (VITE_API_URL w) f])"
  by (simp add: analyze_def Let_def apply_setters_append)

subsection \<open>The score interpretation\<close>

text \<open>
  Claim C1. For every score \<open>s\<close> in the closed interval from 0 to 1 the interpretation
  labels FAKE exactly when \<open>s > 0.5\<close> and REAL otherwise, so that 0.5 itself is REAL;
  the confidence is \<open>s * 100\<close> for FAKE and \<open>(1 - s) * 100\<close> for REAL, which
  keeps it between 50 and 100.
\<close>

theorem ResultInterpreter_threshold:
  assumes "0 \<le> s" and "s \<le> 1"
  shows "(label (ResultInterpreter s) = FAKE \<longleftrightarrow> s > 5 / 10) \<and>
         (label (ResultInterpreter s) = REAL \<longleftrightarrow> s \<le> 5 / 10) \<and>
         (label (ResultInterpreter s) = FAKE \<longrightarrow>
            confidencePercent (ResultInterpreter s) = s * 100) \<and>
         (label (ResultInterpreter s) = REAL \<longrightarrow>
            confidencePercent (ResultInterpreter s) = (1 - s) * 100) \<and>
         50 \<le> confidencePercent (ResultInterpreter s) \<and>
         confidencePercent (ResultInterpreter s) \<le> 100"
  using assms by (simp add: ResultInterpreter_def)

theorem ResultInterpreter_threshold_witness:
  "label (ResultInterpreter (5 / 10)) = REAL \<and>
   confidencePercent (ResultInterpreter (5 / 10)) = 50 \<and>
   label (ResultInterpreter (921 / 1000)) = FAKE \<and>
   confidencePercent (ResultInterpreter (921 / 1000)) = 921 / 10 \<and>
   label (ResultInterpreter (547 / 10000)) = REAL \<and>
   confidencePercent (ResultInterpreter (547 / 10000)) = 9453 / 100"
  using ResultInterpreter_threshold [of "5 / 10"]
    ResultInterpreter_threshold [of "921 / 1000"]
    ResultInterpreter_threshold [of "547 / 10000"]
  by simp

subsection \<open>The size limit\<close>

text \<open>
  Claim C7. An upload of exactly the maximum size passes the size check and goes on to
  decoding and the later stages; an upload one byte larger is answered with
  PayloadTooLargeError and no decode is attempted.
\<close>

theorem size_limit_boundary:
  "(size_bytes u = max_size \<longrightarrow>
      decode_attempts (PredictionService max_size stages u) = 1 \<and>
      response (PredictionService max_size stages u) =
        (case stages u of Inl e \<Rightarrow> Inl e | Inr score \<Rightarrow> Inr (ResultInterpreter score))) \<and>
   (size_bytes u = max_size + 1 \<longrightarrow>
      decode_attempts (PredictionService max_size stages u) = 0 \<and>
      response (PredictionService max_size stages u) = Inl PayloadTooLargeError)"
  by (simp add: PredictionService_def)

theorem size_limit_boundary_witness:
  "response (PredictionService MAX_SIZE (\<lambda>u. Inr (921 / 1000))
      \<lparr>filename = ''clip.wav'', size_bytes = 31457280\<rparr>) =
     Inr (ResultInterpreter (921 / 1000)) \<and>
   decode_attempts (PredictionService MAX_SIZE (\<lambda>u. Inr (921 / 1000))
      \<lparr>filename = ''clip.wav'', size_bytes = 31457280\<rparr>) = 1 \<and>
   response (PredictionService MAX_SIZE (\<lambda>u. Inr (921 / 1000))
      \<lparr>filename = ''clip.wav'', size_bytes = 31457281\<rparr>) = Inl PayloadTooLargeError \<and>
   decode_attempts (PredictionService MAX_SIZE (\<lambda>u. Inr (921 / 1000))
      \<lparr>filename = ''clip.wav'', size_bytes = 31457281\<rparr>) = 0"
  using size_limit_boundary [of "\<lparr>filename = ''clip.wav'', size_bytes = 31457280\<rparr>"
      MAX_SIZE "\<lambda>u. Inr (921 / 1000)"]
    size_limit_boundary [of "\<lparr>filename = ''clip.wav'', size_bytes = 31457281\<rparr>"
      MAX_SIZE "\<lambda>u. Inr (921 / 1000)"]
  by (simp add: MAX_SIZE_def)

subsection \<open>The request of an analysis\<close>

lemma predict_click_Some:
  "selectedFile v = Some f \<Longrightarrow> snd (predict_click w v) = [predict_request f]"
  by (simp add: predict_click_def Let_def)

text \<open>
  Claim C6. Analysing a selected file sends exactly one request: a POST to the
  prediction endpoint, \<^verbatim>\<open>/api/predict\<close> under the base URL for the React client and
  \<^verbatim>\<open>/predict\<close> for the VoiceShield client, whose form data has the single field
  \<^verbatim>\<open>file\<close> holding the selected file.
\<close>

theorem one_multipart_post:
  "(file_state s = Some f \<longrightarrow>
      snd (analyze w s) =
        [\<lparr>req_url = API_BASE_URL (VITE_API_URL w) @ ''/api/predict'',
          req_method = ''POST'',
          req_body = [(''file'', f)],
          req_headers = [(''Accept'', ''application/json'')]\<rparr>]) \<and>
   (selectedFile v = Some f \<longrightarrow>
      snd (predict_click w v) =
        [\<lparr>req_url = ''http://127.0.0.1:8000/predict'',
          req_method = ''POST'',
          req_body = [(''file'', f)],
          req_headers = []\<rparr>])"
  by (simp add: analyze_Some predict_click_Some analyze_request_def predict_request_def
      API_URL_def)

theorem one_multipart_post_witness:
  "snd (analyze (world_of (Rejected ''Failed to fetch'')) (handleFile clip App_init)) =
     [\<lparr>req_url = ''http://localhost:5000/api/predict'',
       req_method = ''POST'',
       req_body = [(''file'', clip)],
       req_headers = [(''Accept'', ''application/json'')]\<rparr>] \<and>
   snd (predict_click (world_of (Rejected ''Failed to fetch''))
          (vs_handleFile (Some clip) page0)) =
     [\<lparr>req_url = ''http://127.0.0.1:8000/predict'',
       req_method = ''POST'',
       req_body = [(''file'', clip)],
       req_headers = []\<rparr>]"
proof -
  have a: "file_state (handleFile clip App_init) = Some clip"
    by (simp add: handleFile_def handleFile_calls_def)
  have e: "ext_of clip = ''wav''"
    by (simp add: ext_of_def clip_def js_split_def toLowerCase_def lower_def)
  have b: "selectedFile (vs_handleFile (Some clip) page0) = Some clip"
    by (simp add: vs_handleFile_def e allowed_def hideResult_def hideStatus_def)
  have u: "API_BASE_URL (VITE_API_URL (world_of (Rejected ''Failed to fetch''))) =
      ''http://localhost:5000''"
    by (simp add: world_of_def API_BASE_URL_def)
  show ?thesis
    using one_multipart_post [of "handleFile clip App_init" clip
        "world_of (Rejected ''Failed to fetch'')" "vs_handleFile (Some clip) page0"] a b u
    by simp
qed

subsection \<open>The dial\<close>

lemma Math_round_round: "Math_round x = round x"
  by (simp add: Math_round_def round_def)

lemma c_pos: "0 < c"
  by (simp add: c_def Math_PI_def radius_def)

lemma normalized_bounds: "0 \<le> normalized v \<and> normalized v \<le> 100"
  by (simp add: normalized_def)

text \<open>
  Claim C9. For every number given to it, CircularConfidence prints
  \<open>round value\<close> clamped to the interval from 0 to 100, and its arc is that
  percentage of the circumference \<open>2 * Math_PI * 48\<close>; what is drawn is never below
  0 percent nor above 100 percent.
\<close>

theorem CircularConfidence_clamped:
  "percent_text (CircularConfidence v) = max 0 (min 100 (round v)) \<and>
   0 \<le> percent_text (CircularConfidence v) \<and>
   percent_text (CircularConfidence v) \<le> 100 \<and>
   dash_drawn (CircularConfidence v) =
     real_of_int (max 0 (min 100 (round v))) / 100 * (2 * Math_PI * 48) \<and>
   dash_drawn (CircularConfidence v) + dash_gap (CircularConfidence v) = 2 * Math_PI * 48 \<and>
   0 \<le> dash_drawn (CircularConfidence v) \<and>
   dash_drawn (CircularConfidence v) \<le> 2 * Math_PI * 48"
proof -
  have n: "normalized v = max 0 (min 100 (round v))"
    by (simp add: normalized_def Math_round_round)
  have b: "0 \<le> normalized v" "normalized v \<le> 100"
    using normalized_bounds by simp_all
  have cc: "c = 2 * Math_PI * 48"
    by (simp add: c_def radius_def)
  have d0: "0 \<le> dash v"
    using b c_pos by (simp add: dash_def)
  have "real_of_int (normalized v) / 100 \<le> 1"
    using b by simp
  then have "c * (real_of_int (normalized v) / 100) \<le> c * 1"
    using c_pos by (intro mult_left_mono) simp_all
  then have d1: "dash v \<le> c"
    by (simp add: dash_def)
  show ?thesis
    using n b d0 d1 by (simp add: CircularConfidence_def dash_def cc)
qed

theorem CircularConfidence_clamped_witness:
  "percent_text (CircularConfidence 150) = 100 \<and>
   dash_drawn (CircularConfidence 150) = 2 * Math_PI * 48 \<and>
   percent_text (CircularConfidence (- 32 / 10)) = 0 \<and>
   dash_drawn (CircularConfidence (- 32 / 10)) = 0 \<and>
   percent_text (CircularConfidence (945 / 10)) = 95"
  using CircularConfidence_clamped [of 150] CircularConfidence_clamped [of "- 32 / 10"]
    CircularConfidence_clamped [of "945 / 10"]
  by (simp add: round_def)

subsection \<open>The shapes of a settled run\<close>

lemma analyze_try_cases:
  "(\<exists>m. analyze_try eng out t0 t1 = Inl (Exn m)) \<or>
   (\<exists>r cf ai pt. analyze_try eng out t0 t1 =
       Inr [setResult r, setConfidence cf, setAudioInfo ai, setProcessingTime pt]) \<or>
   (\<exists>e. truthy e \<and> analyze_try eng out t0 t1 = Inr [setError e])"
proof (cases out)
  case (Rejected m)
  then show ?thesis by (simp add: analyze_try_def)
next
  case (Response status b)
  show ?thesis
  proof (cases b)
    case (NotJson m)
    with Response show ?thesis by (simp add: analyze_try_def)
  next
    case (Json d)
    with Response show ?thesis
      by (cases "get_prop eng d ''error''"; cases "get_prop eng d ''success''")
         (auto simp: analyze_try_def js_or_def intro: exn.exhaust)
  qed
qed

lemma analyze_settle_calls_cases:
  "(\<exists>r cf ai pt. analyze_settle_calls eng out t0 t1 =
       [setResult r, setConfidence cf, setAudioInfo ai, setProcessingTime pt,
        setProcessing False]) \<or>
   (\<exists>e. truthy e \<and> analyze_settle_calls eng out t0 t1 = [setError e, setProcessing False])"
  using analyze_try_cases [of eng out t0 t1]
  by (auto simp: analyze_settle_calls_def analyze_catch_def analyze_finally_def js_or_def
      split: if_splits)







lemma chosen_file: "file_state (handleFile clip App_init) = Some clip"
  by (simp add: handleFile_def handleFile_calls_def)



subsection \<open>Success responses\<close>

lemma lookup_JStr_not_null: "lookup d k = JStr m \<Longrightarrow> d \<noteq> JNull \<and> d \<noteq> JUndefined"
  by (cases d) auto

lemma truthy_lookup_not_null: "truthy (lookup d k) \<Longrightarrow> d \<noteq> JNull \<and> d \<noteq> JUndefined"
  by (cases d) auto

lemma analyze_try_success:
  assumes "response_ok status" and "truthy (lookup d ''success'')"
  shows "analyze_try eng (Response status (Json d)) t0 t1 =
     Inr [setResult (lookup d ''prediction''),
          setConfidence (lookup d ''confidence''),
          setAudioInfo (lookup d ''audio_info''),
          setProcessingTime (js_or (lookup d ''processing_time_seconds'')
                                   (JNum ((t1 - t0) / 1000)))]"
  using assms truthy_lookup_not_null [of d "''success''"]
  by (simp add: analyze_try_def get_prop_def)

lemma analyze_success_state:
  assumes "file_state s = Some f"
    and "fetch w (analyze_request (VITE_API_URL w) f) = Response status (Json d)"
    and "response_ok status" and "truthy (lookup d ''success'')"
  shows "fst (analyze w s) =
     s\<lparr>processing := False, result := lookup d ''prediction'',
       confidence := lookup d ''confidence'', error := JNull,
       audioInfo := lookup d ''audio_info'',
       processingTime := js_or (lookup d ''processing_time_seconds'')
                               (JNum ((endTime w - startTime w) / 1000))\<rparr>"
  using assms
  by (simp add: analyze_Some analyze_settle_calls_def analyze_try_success
      analyze_begin_calls_def analyze_finally_def)

text \<open>
  Claim C10. On a success response whose \<^verbatim>\<open>processing_time_seconds\<close> is absent, null
  or 0, the stored processing time is the measured round trip,
  \<open>(endTime - startTime) / 1000\<close>; on every truthy value it is the value of the
  response.
\<close>

theorem processing_time_fallback:
  assumes "file_state s = Some f"
    and "fetch w (analyze_request (VITE_API_URL w) f) = Response status (Json (JObj kvs))"
    and "response_ok status"
    and "truthy (lookup (JObj kvs) ''success'')"
  shows "((map_of (rev kvs) ''processing_time_seconds'' = None \<or>
           lookup (JObj kvs) ''processing_time_seconds'' = JNull \<or>
           lookup (JObj kvs) ''processing_time_seconds'' = JNum 0) \<longrightarrow>
          processingTime (fst (analyze w s)) =
            JNum ((endTime w - startTime w) / 1000)) \<and>
         (truthy (lookup (JObj kvs) ''processing_time_seconds'') \<longrightarrow>
          processingTime (fst (analyze w s)) =
            lookup (JObj kvs) ''processing_time_seconds'')"
proof -
  have "processingTime (fst (analyze w s)) =
      js_or (lookup (JObj kvs) ''processing_time_seconds'')
            (JNum ((endTime w - startTime w) / 1000))"
    by (simp add: analyze_success_state [OF assms])
  then show ?thesis
    by (auto simp: js_or_def)
qed

theorem processing_time_fallback_witness:
  "processingTime (fst (analyze (world_of (Response 200 (Json ok_body)))
      (handleFile clip App_init))) = JNum (82 / 100) \<and>
   processingTime (fst (analyze
      (world_of (Response 200 (Json (JObj [(''prediction'', JStr ''REAL''),
         (''processing_time_seconds'', JNum 0), (''success'', JBool True)]))))
      (handleFile clip App_init))) = JNum (905 / 1000) \<and>
   processingTime (fst (analyze
      (world_of (Response 200 (Json (JObj [(''prediction'', JStr ''REAL''),
         (''success'', JBool True)]))))
      (handleFile clip App_init))) = JNum (905 / 1000)"
proof -
  have a: "processingTime (fst (analyze (world_of (Response 200 (Json ok_body)))
      (handleFile clip App_init))) = JNum (82 / 100)"
    using processing_time_fallback [of "handleFile clip App_init" clip
        "world_of (Response 200 (Json ok_body))" 200
        "[(''prediction'', JStr ''FAKE''), (''confidence'', JNum (921 / 10)),
           (''audio_info'', JObj [(''duration'', JNum (234 / 100))]),
           (''processing_time_seconds'', JNum (82 / 100)), (''success'', JBool True)]"]
      chosen_file
    by (simp add: world_of_def ok_body_def response_ok_def)
  have b: "processingTime (fst (analyze
      (world_of (Response 200 (Json (JObj [(''prediction'', JStr ''REAL''),
         (''processing_time_seconds'', JNum 0), (''success'', JBool True)]))))
      (handleFile clip App_init))) = JNum (905 / 1000)"
    using processing_time_fallback [of "handleFile clip App_init" clip
        "world_of (Response 200 (Json (JObj [(''prediction'', JStr ''REAL''),
         (''processing_time_seconds'', JNum 0), (''success'', JBool True)])))" 200
        "[(''prediction'', JStr ''REAL''),
         (''processing_time_seconds'', JNum 0), (''success'', JBool True)]"]
      chosen_file
    by (simp add: world_of_def response_ok_def)
  have c: "processingTime (fst (analyze
      (world_of (Response 200 (Json (JObj [(''prediction'', JStr ''REAL''),
         (''success'', JBool True)]))))
      (handleFile clip App_init))) = JNum (905 / 1000)"
    using processing_time_fallback [of "handleFile clip App_init" clip
        "world_of (Response 200 (Json (JObj [(''prediction'', JStr ''REAL''),
         (''success'', JBool True)])))" 200
        "[(''prediction'', JStr ''REAL''), (''success'', JBool True)]"]
      chosen_file
    by (simp add: world_of_def response_ok_def)
  from a b c show ?thesis by simp
qed

subsection \<open>Errors of a run\<close>

lemma analyze_error_state:
  assumes "file_state s = Some f"
    and "analyze_settle_calls (js w) (fetch w (analyze_request (VITE_API_URL w) f))
           (startTime w) (endTime w) = [setError e, setProcessing False]"
  shows "fst (analyze w s) =
     s\<lparr>processing := False, result := JNull, confidence := JNum 0, error := e\<rparr>"
  using assms by (simp add: analyze_Some analyze_begin_calls_def)

lemma try_rejected: "analyze_try eng (Rejected m) t0 t1 = Inl (Exn m)"
  by (simp add: analyze_try_def)

lemma try_not_json: "analyze_try eng (Response status (NotJson m)) t0 t1 = Inl (Exn m)"
  by (simp add: analyze_try_def)

lemma or_connect_failed_truthy: "or_connect_failed m \<noteq> []"
  by (simp add: or_connect_failed_def)

lemma settle_caught:
  "analyze_try eng out t0 t1 = Inl (Exn m) \<Longrightarrow>
   analyze_settle_calls eng out t0 t1 =
     [setError (JStr (or_connect_failed m)), setProcessing False]"
  by (simp add: analyze_settle_calls_def analyze_catch_def analyze_finally_def js_or_def
      or_connect_failed_def)

lemma try_null_or_undefined:
  "d = JNull \<or> d = JUndefined \<Longrightarrow>
   analyze_try eng (Response status (Json d)) t0 t1 =
     Inl (Exn (nullReadMessage eng (if response_ok status then ''success'' else ''error'')))"
  by (auto simp: analyze_try_def get_prop_def)

lemma try_failed_status:
  "\<not> response_ok status \<Longrightarrow> d \<noteq> JNull \<Longrightarrow> d \<noteq> JUndefined \<Longrightarrow>
   analyze_try eng (Response status (Json d)) t0 t1 =
     Inl (Exn (js_ToString eng
       (js_or (lookup d ''error'') (JStr (''API error: '' @ decimal status)))))"
  by (simp add: analyze_try_def get_prop_def)

lemma settle_reported:
  "response_ok status \<Longrightarrow> \<not> truthy (lookup d ''success'') \<Longrightarrow>
   d \<noteq> JNull \<Longrightarrow> d \<noteq> JUndefined \<Longrightarrow>
   analyze_settle_calls eng (Response status (Json d)) t0 t1 =
     [setError (js_or (lookup d ''error'') (JStr ''Prediction failed'')),
      setProcessing False]"
  by (simp add: analyze_settle_calls_def analyze_try_def get_prop_def analyze_finally_def)

lemma error_state_render:
  assumes "result s = JNull" and "error s = e" and "truthy e"
  shows "App_render eng s =
     (if renderable e then
        Renders \<lparr>panel = Some \<lparr>panel_title = ''Error'', panel_text = e, panel_controls = []\<rparr>,
                 card = None, stats = None\<rparr>
      else Throws)"
  using assms
  by (simp add: App_render_def ResultCard_def error_panel_view_def error_panel_def)

lemma caught_shows:
  assumes "file_state s = Some f"
    and "analyze_try (js w) (fetch w (analyze_request (VITE_API_URL w) f))
           (startTime w) (endTime w) = Inl (Exn m)"
  shows "shows_error (js w) (fst (analyze w s)) (JStr (or_connect_failed m))"
proof -
  have st: "fst (analyze w s) =
      s\<lparr>processing := False, result := JNull, confidence := JNum 0,
        error := JStr (or_connect_failed m)\<rparr>"
    using assms by (simp add: analyze_error_state settle_caught)
  have "App_render (js w) (fst (analyze w s)) =
      Renders \<lparr>panel = Some \<lparr>panel_title = ''Error'',
                  panel_text = JStr (or_connect_failed m), panel_controls = []\<rparr>,
               card = None, stats = None\<rparr>"
    by (subst error_state_render [where e = "JStr (or_connect_failed m)"])
       (simp_all add: st or_connect_failed_truthy)
  then show ?thesis
    by (simp add: shows_error_def st)
qed

lemma reported_state:
  assumes "file_state s = Some f"
    and "fetch w (analyze_request (VITE_API_URL w) f) = Response status (Json d)"
    and "response_ok status" and "\<not> truthy (lookup d ''success'')"
    and "d \<noteq> JNull" and "d \<noteq> JUndefined"
  shows "fst (analyze w s) =
      s\<lparr>processing := False, result := JNull, confidence := JNum 0,
        error := js_or (lookup d ''error'') (JStr ''Prediction failed'')\<rparr>"
  using assms by (simp add: analyze_error_state settle_reported)

lemma after_run:
  assumes "file_state s = Some f"
  shows "file_state (fst (analyze w s)) = Some f \<and> \<not> processing (fst (analyze w s))"
proof -
  let ?out = "fetch w (analyze_request (VITE_API_URL w) f)"
  from analyze_settle_calls_cases [of "js w" ?out "startTime w" "endTime w"] assms
  show ?thesis
    by (auto simp: analyze_Some analyze_begin_calls_def)
qed


text \<open>
  The statement of C4 as written fails on the word dismissible: after a failed run the
  page shows the error panel with the message, the panel has no control, and it is
  still there after a further event that neither selects a file nor starts an analysis.
\<close>

theorem error_panel_counterexample:
  "App_render engine0
     (fst (analyze (world_of (Rejected ''Failed to fetch'')) (handleFile clip App_init))) =
     Renders \<lparr>panel = Some \<lparr>panel_title = ''Error'', panel_text = JStr ''Failed to fetch'',
                               panel_controls = []\<rparr>,
              card = None, stats = None\<rparr> \<and>
   error_panel
     (step engine0
        (fst (analyze (world_of (Rejected ''Failed to fetch'')) (handleFile clip App_init)))
        (Settle (Rejected ''Failed to fetch'') 0 5)) = Some (JStr ''Failed to fetch'')"
proof -
  let ?w = "world_of (Rejected ''Failed to fetch'')"
  have t: "analyze_try (js ?w) (fetch ?w (analyze_request (VITE_API_URL ?w) clip))
      (startTime ?w) (endTime ?w) = Inl (Exn ''Failed to fetch'')"
    by (simp add: world_of_def try_rejected)
  have e: "engine0 = js ?w"
    by (simp add: world_of_def)
  have "shows_error (js ?w) (fst (analyze ?w (handleFile clip App_init)))
      (JStr (or_connect_failed ''Failed to fetch''))"
    by (rule caught_shows [OF chosen_file t])
  then have sh: "shows_error engine0 (fst (analyze ?w (handleFile clip App_init)))
      (JStr ''Failed to fetch'')"
    by (simp add: or_connect_failed_def e [symmetric])
  have p: "\<not> processing (fst (analyze ?w (handleFile clip App_init)))"
    using after_run [OF chosen_file, of ?w] by simp
  from sh p show ?thesis
    by (simp add: shows_error_def error_panel_def)
qed

text \<open>
  Claim C4, amended. A run of \<^verbatim>\<open>analyze\<close> on a state with a file sends one request
  and is over when it ends, so nothing is retried. However it fails, the page renders
  the error panel, whose text is: the message itself when the \<^verbatim>\<open>fetch\<close> rejects, the
  body does not parse or the body is \<^verbatim>\<open>null\<close> (the text of \<open>or_connect_failed\<close> for
  an empty message); for a failed status, the string conversion of the body's
  \<^verbatim>\<open>error\<close> field, or \<^verbatim>\<open>API error: \<close> and the status when that field is falsy;
  for a body with a falsy \<^verbatim>\<open>success\<close>, the \<^verbatim>\<open>error\<close> field as it is, or
  \<^verbatim>\<open>Prediction failed\<close> when that field is falsy, and there the rendering throws if
  the field holds an object. In each case a non-empty string in the \<^verbatim>\<open>error\<close> field
  is shown unchanged. The panel has no control: it stays when the request of a
  finished run settles again, and goes away when a file is selected or the next analysis
  starts.
\<close>

theorem error_panel_shows_message:
  assumes "file_state s = Some f"
  shows
    "snd (analyze w s) = [analyze_request (VITE_API_URL w) f] \<and>
     \<not> processing (fst (analyze w s)) \<and>
     (fetch w (analyze_request (VITE_API_URL w) f) = Rejected m \<or>
      fetch w (analyze_request (VITE_API_URL w) f) = Response status (NotJson m) \<longrightarrow>
        shows_error (js w) (fst (analyze w s)) (JStr (or_connect_failed m))) \<and>
     (fetch w (analyze_request (VITE_API_URL w) f) = Response status (Json d) \<and>
      (d = JNull \<or> d = JUndefined) \<longrightarrow>
        shows_error (js w) (fst (analyze w s))
          (JStr (or_connect_failed
             (nullReadMessage (js w) (if response_ok status then ''success'' else ''error''))))) \<and>
     (fetch w (analyze_request (VITE_API_URL w) f) = Response status (Json d) \<and>
      d \<noteq> JNull \<and> d \<noteq> JUndefined \<and> \<not> response_ok status \<longrightarrow>
        shows_error (js w) (fst (analyze w s))
          (JStr (or_connect_failed (js_ToString (js w)
             (js_or (lookup d ''error'') (JStr (''API error: '' @ decimal status)))))) \<and>
        (lookup d ''error'' = JStr m \<and> m \<noteq> [] \<longrightarrow>
           shows_error (js w) (fst (analyze w s)) (JStr m))) \<and>
     (fetch w (analyze_request (VITE_API_URL w) f) = Response status (Json d) \<and>
      d \<noteq> JNull \<and> d \<noteq> JUndefined \<and> response_ok status \<and>
      \<not> truthy (lookup d ''success'') \<longrightarrow>
        error (fst (analyze w s)) = js_or (lookup d ''error'') (JStr ''Prediction failed'') \<and>
        App_render (js w) (fst (analyze w s)) =
          (if renderable (js_or (lookup d ''error'') (JStr ''Prediction failed'')) then
             Renders \<lparr>panel = Some \<lparr>panel_title = ''Error'',
                         panel_text = js_or (lookup d ''error'') (JStr ''Prediction failed''),
                         panel_controls = []\<rparr>,
                      card = None, stats = None\<rparr>
           else Throws) \<and>
        (lookup d ''error'' = JStr m \<and> m \<noteq> [] \<longrightarrow>
           shows_error (js w) (fst (analyze w s)) (JStr m))) \<and>
     step eng (fst (analyze w s)) (Settle outcome t0 t1) = fst (analyze w s) \<and>
     error_panel (step eng (fst (analyze w s)) (SelectFile g)) = None \<and>
     error_panel (step eng (fst (analyze w s)) ClickAnalyze) = None"
proof -
  let ?out = "fetch w (analyze_request (VITE_API_URL w) f)"
  let ?s = "fst (analyze w s)"
  note run = after_run [OF assms, of w]
  have c1: "snd (analyze w s) = [analyze_request (VITE_API_URL w) f]"
    using assms by (simp add: analyze_Some)
  have c2: "?out = Rejected m \<or> ?out = Response status (NotJson m) \<longrightarrow>
      shows_error (js w) ?s (JStr (or_connect_failed m))"
  proof
    assume "?out = Rejected m \<or> ?out = Response status (NotJson m)"
    then have "analyze_try (js w) ?out (startTime w) (endTime w) = Inl (Exn m)"
      by (auto simp: try_rejected try_not_json)
    from caught_shows [OF assms this]
    show "shows_error (js w) ?s (JStr (or_connect_failed m))" .
  qed
  have c3: "?out = Response status (Json d) \<and> (d = JNull \<or> d = JUndefined) \<longrightarrow>
      shows_error (js w) ?s (JStr (or_connect_failed
        (nullReadMessage (js w) (if response_ok status then ''success'' else ''error''))))"
  proof
    assume h: "?out = Response status (Json d) \<and> (d = JNull \<or> d = JUndefined)"
    then have "analyze_try (js w) ?out (startTime w) (endTime w) =
        Inl (Exn (nullReadMessage (js w)
          (if response_ok status then ''success'' else ''error'')))"
      using try_null_or_undefined [of d "js w" status] by simp
    from caught_shows [OF assms this]
    show "shows_error (js w) ?s (JStr (or_connect_failed
        (nullReadMessage (js w) (if response_ok status then ''success'' else ''error''))))" .
  qed
  have c4: "?out = Response status (Json d) \<and> d \<noteq> JNull \<and> d \<noteq> JUndefined \<and>
      \<not> response_ok status \<longrightarrow>
        shows_error (js w) ?s
          (JStr (or_connect_failed (js_ToString (js w)
             (js_or (lookup d ''error'') (JStr (''API error: '' @ decimal status)))))) \<and>
        (lookup d ''error'' = JStr m \<and> m \<noteq> [] \<longrightarrow> shows_error (js w) ?s (JStr m))"
  proof
    assume h: "?out = Response status (Json d) \<and> d \<noteq> JNull \<and> d \<noteq> JUndefined \<and>
      \<not> response_ok status"
    then have "analyze_try (js w) ?out (startTime w) (endTime w) =
        Inl (Exn (js_ToString (js w)
          (js_or (lookup d ''error'') (JStr (''API error: '' @ decimal status)))))"
      by (simp add: try_failed_status)
    from caught_shows [OF assms this]
    have g: "shows_error (js w) ?s
        (JStr (or_connect_failed (js_ToString (js w)
           (js_or (lookup d ''error'') (JStr (''API error: '' @ decimal status))))))" .
    have "lookup d ''error'' = JStr m \<and> m \<noteq> [] \<longrightarrow> shows_error (js w) ?s (JStr m)"
    proof
      assume "lookup d ''error'' = JStr m \<and> m \<noteq> []"
      with g show "shows_error (js w) ?s (JStr m)"
        by (simp add: js_or_def js_ToString_def or_connect_failed_def)
    qed
    with g show "shows_error (js w) ?s
          (JStr (or_connect_failed (js_ToString (js w)
             (js_or (lookup d ''error'') (JStr (''API error: '' @ decimal status)))))) \<and>
        (lookup d ''error'' = JStr m \<and> m \<noteq> [] \<longrightarrow> shows_error (js w) ?s (JStr m))"
      by simp
  qed
  have c5: "?out = Response status (Json d) \<and> d \<noteq> JNull \<and> d \<noteq> JUndefined \<and>
      response_ok status \<and> \<not> truthy (lookup d ''success'') \<longrightarrow>
        error ?s = js_or (lookup d ''error'') (JStr ''Prediction failed'') \<and>
        App_render (js w) ?s =
          (if renderable (js_or (lookup d ''error'') (JStr ''Prediction failed'')) then
             Renders \<lparr>panel = Some \<lparr>panel_title = ''Error'',
                         panel_text = js_or (lookup d ''error'') (JStr ''Prediction failed''),
                         panel_controls = []\<rparr>,
                      card = None, stats = None\<rparr>
           else Throws) \<and>
        (lookup d ''error'' = JStr m \<and> m \<noteq> [] \<longrightarrow> shows_error (js w) ?s (JStr m))"
  proof
    let ?e = "js_or (lookup d ''error'') (JStr ''Prediction failed'')"
    assume h: "?out = Response status (Json d) \<and> d \<noteq> JNull \<and> d \<noteq> JUndefined \<and>
      response_ok status \<and> \<not> truthy (lookup d ''success'')"
    with assms have st: "?s =
        s\<lparr>processing := False, result := JNull, confidence := JNum 0, error := ?e\<rparr>"
      by (simp add: reported_state)
    have te: "truthy ?e"
      by (simp add: js_or_def)
    have e: "error ?s = ?e"
      by (simp add: st)
    have r: "App_render (js w) ?s =
        (if renderable ?e then
           Renders \<lparr>panel = Some \<lparr>panel_title = ''Error'', panel_text = ?e,
                       panel_controls = []\<rparr>,
                    card = None, stats = None\<rparr>
         else Throws)"
      by (rule error_state_render [OF _ e te]) (simp add: st)
    have "lookup d ''error'' = JStr m \<and> m \<noteq> [] \<longrightarrow> shows_error (js w) ?s (JStr m)"
    proof
      assume "lookup d ''error'' = JStr m \<and> m \<noteq> []"
      then have "?e = JStr m"
        by (simp add: js_or_def)
      with e r show "shows_error (js w) ?s (JStr m)"
        by (simp add: shows_error_def)
    qed
    with e r show "error ?s = ?e \<and>
        App_render (js w) ?s =
          (if renderable ?e then
             Renders \<lparr>panel = Some \<lparr>panel_title = ''Error'', panel_text = ?e,
                         panel_controls = []\<rparr>,
                      card = None, stats = None\<rparr>
           else Throws) \<and>
        (lookup d ''error'' = JStr m \<and> m \<noteq> [] \<longrightarrow> shows_error (js w) ?s (JStr m))"
      by simp
  qed
  have c6: "step eng ?s (Settle outcome t0 t1) = ?s"
    using run by simp
  have c7: "error_panel (step eng ?s (SelectFile g)) = None"
    by (simp add: handleFile_def handleFile_calls_def error_panel_def)
  have c8: "error_panel (step eng ?s ClickAnalyze) = None"
    using run by (simp add: analyze_begin_calls_def error_panel_def)
  from c1 run c2 c3 c4 c5 c6 c7 c8 show ?thesis
    by blast
qed

theorem error_panel_shows_message_witness:
  "shows_error engine0
     (fst (analyze (world_of (Rejected ''Failed to fetch'')) (handleFile clip App_init)))
     (JStr ''Failed to fetch'') \<and>
   shows_error engine0
     (fst (analyze
        (world_of (Response 500 (Json (JObj [(''error'', JStr ''Model not loaded''),
           (''success'', JBool False)]))))
        (handleFile clip App_init)))
     (JStr ''Model not loaded'') \<and>
   shows_error engine0
     (fst (analyze
        (world_of (Response 200 (Json (JObj [(''error'', JStr ''No file provided''),
           (''success'', JBool False)]))))
        (handleFile clip App_init)))
     (JStr ''No file provided'') \<and>
   shows_error engine0
     (fst (analyze (world_of (Response 200 (Json (JObj [])))) (handleFile clip App_init)))
     (JStr ''Prediction failed'')"
proof -
  let ?s = "handleFile clip App_init"
  let ?b = "JObj [(''error'', JStr ''Model not loaded''), (''success'', JBool False)]"
  let ?c = "JObj [(''error'', JStr ''No file provided''), (''success'', JBool False)]"
  have a: "shows_error engine0 (fst (analyze (world_of (Rejected ''Failed to fetch'')) ?s))
      (JStr ''Failed to fetch'')"
    using error_panel_shows_message [OF chosen_file,
        of "world_of (Rejected ''Failed to fetch'')" "''Failed to fetch''"]
    by (simp add: world_of_def or_connect_failed_def)
  have b: "shows_error engine0 (fst (analyze (world_of (Response 500 (Json ?b))) ?s))
      (JStr ''Model not loaded'')"
    using error_panel_shows_message [OF chosen_file,
        of "world_of (Response 500 (Json ?b))" "''Model not loaded''" 500 ?b]
    by (simp add: world_of_def response_ok_def)
  have c: "shows_error engine0 (fst (analyze (world_of (Response 200 (Json ?c))) ?s))
      (JStr ''No file provided'')"
    using error_panel_shows_message [OF chosen_file,
        of "world_of (Response 200 (Json ?c))" "''No file provided''" 200 ?c]
    by (simp add: world_of_def response_ok_def)
  have d: "shows_error engine0 (fst (analyze (world_of (Response 200 (Json (JObj [])))) ?s))
      (JStr ''Prediction failed'')"
    using error_panel_shows_message [OF chosen_file,
        of "world_of (Response 200 (Json (JObj [])))" "''x''" 200 "JObj []"]
    by (simp add: world_of_def response_ok_def js_or_def shows_error_def)
  from a b c d show ?thesis by simp
qed

subsection \<open>The VoiceShield page\<close>

lemma ext_clip: "ext_of clip = ''wav''"
  by (simp add: ext_of_def clip_def js_split_def toLowerCase_def lower_def)

lemma ext_notes: "ext_of notes_txt = ''txt''"
  by (simp add: ext_of_def notes_txt_def js_split_def toLowerCase_def lower_def)

lemma picked_file: "selectedFile (vs_handleFile (Some clip) page0) = Some clip"
  by (simp add: vs_handleFile_def ext_clip allowed_def hideResult_def hideStatus_def)

lemma js_includes_hd: "js_includes s t \<Longrightarrow> t \<noteq> [] \<Longrightarrow> hd t \<in> set s"
proof (induction s)
  case Nil
  then show ?case by simp
next
  case (Cons ch cs)
  show ?case
  proof (cases "take (length t) (ch # cs) = t")
    case True
    with Cons.prems(2) have "hd t = ch"
      by (cases t) auto
    then show ?thesis by simp
  next
    case False
    with Cons show ?thesis by simp
  qed
qed

lemma decimal_digits: "set (decimal n) \<subseteq> set ''0123456789''"
proof (induction n rule: decimal.induct)
  case (1 n)
  have d: "k < 10 \<Longrightarrow> ''0123456789'' ! k \<in> set ''0123456789''" for k
    by (rule nth_mem) simp
  show ?case
  proof (cases "n < 10")
    case True
    then show ?thesis
      using d [of n] by (subst decimal.simps) simp
  next
    case False
    have "n mod 10 < 10" by simp
    from d [OF this] 1 False show ?thesis
      by (subst decimal.simps) simp
  qed
qed

lemma server_error_kept:
  "\<not> js_includes (''Server error ('' @ decimal status @ '')'') ''Failed to fetch''"
proof
  assume "js_includes (''Server error ('' @ decimal status @ '')'') ''Failed to fetch''"
  from js_includes_hd [OF this]
  have "CHR ''F'' \<in> set (''Server error ('' @ decimal status @ '')'')" by simp
  then have "CHR ''F'' \<in> set (decimal status)" by simp
  with decimal_digits [of status] show False by auto
qed



lemma predict_thrown:
  assumes "selectedFile v = Some f"
    and "predict_try (js w) (fetch w (predict_request f))
           (hideStatus (hideResult (v\<lparr>predictBtn_disabled := True, spinner_show := True\<rparr>))) =
         Inl (Exn m)"
  shows "status_shown (fst (predict_click w v)) =
     Some (if js_includes m ''Failed to fetch''
           then ''Cannot reach server. Is run_server.py running?'' else m)"
  using assms
  by (simp add: predict_click_def Let_def predict_catch_def predict_finally_def
      showStatus_def status_shown_def)

lemma predict_try_no_detail:
  "\<not> response_ok status \<Longrightarrow> \<not> truthy (lookup d ''detail'') \<Longrightarrow>
   d \<noteq> JNull \<Longrightarrow> d \<noteq> JUndefined \<Longrightarrow>
   predict_try eng (Response status (Json d)) s =
     Inl (Exn (''Server error ('' @ decimal status @ '')''))"
  by (simp add: predict_try_def get_prop_def js_or_def js_ToString_def)


subsection \<open>What is read from a success response\<close>







subsection \<open>What is shown for a failed response\<close>

text \<open>
  The statement of C5 as written fails on the VoiceShield client: for a response with
  status 400 whose body has the message in \<^verbatim>\<open>error\<close>, it shows the generic message.
\<close>

theorem error_field_counterexample:
  "\<not> response_ok 400 \<and>
   lookup error_body ''error'' = JStr ''Unsupported file format'' \<and>
   status_shown (fst (predict_click (world_of (Response 400 (Json error_body)))
     (vs_handleFile (Some clip) page0))) = Some ''Server error (400)''"
proof -
  have d: "decimal 400 = ''400''"
    by (simp add: decimal.simps)
  have "predict_try (js (world_of (Response 400 (Json error_body))))
      (fetch (world_of (Response 400 (Json error_body))) (predict_request clip))
      (hideStatus (hideResult ((vs_handleFile (Some clip) page0)
         \<lparr>predictBtn_disabled := True, spinner_show := True\<rparr>))) =
      Inl (Exn ''Server error (400)'')"
    by (simp add: world_of_def predict_try_no_detail response_ok_def error_body_def d)
  from predict_thrown [OF picked_file this] show ?thesis
    by (simp add: response_ok_def error_body_def)
qed

lemma predict_caught:
  assumes "selectedFile v = Some f"
    and "predict_try (js w) (fetch w (predict_request f))
           (hideStatus (hideResult (v\<lparr>predictBtn_disabled := True, spinner_show := True\<rparr>))) =
         Inl (Exn m)"
  shows "status_shown (fst (predict_click w v)) = Some (or_cannot_reach m)"
  using predict_thrown [OF assms] by (simp add: or_cannot_reach_def)

lemma predict_try_null:
  "\<not> response_ok status \<Longrightarrow> d = JNull \<or> d = JUndefined \<Longrightarrow>
   predict_try eng (Response status (Json d)) s = Inl (Exn (nullReadMessage eng ''detail''))"
  by (auto simp: predict_try_def get_prop_def)

lemma predict_try_failed_status:
  "\<not> response_ok status \<Longrightarrow> d \<noteq> JNull \<Longrightarrow> d \<noteq> JUndefined \<Longrightarrow>
   predict_try eng (Response status (Json d)) s =
     Inl (Exn (js_ToString eng
       (js_or (lookup d ''detail'') (JStr (''Server error ('' @ decimal status @ '')'')))))"
  by (simp add: predict_try_def get_prop_def)

lemma predict_try_unparsed:
  "\<not> response_ok status \<Longrightarrow>
   predict_try eng (Response status (NotJson m)) s =
     Inl (Exn (''Server error ('' @ decimal status @ '')''))"
  by (simp add: predict_try_def get_prop_def js_or_def js_ToString_def)

lemma server_error_or_cannot_reach:
  "or_cannot_reach (''Server error ('' @ decimal status @ '')'') =
     ''Server error ('' @ decimal status @ '')''"
  using server_error_kept [of status] by (simp add: or_cannot_reach_def)

text \<open>
  Claim C5, amended. For a response with a status outside 200 to 299 the React client
  shows: the string conversion of the \<^verbatim>\<open>error\<close> field of the JSON body, which for a
  non-empty string is the string itself; \<^verbatim>\<open>API error: \<close> and the status when the
  field is absent or falsy; and the message of the error thrown when the body does not
  parse or is \<^verbatim>\<open>null\<close>. The VoiceShield client reads the field \<^verbatim>\<open>detail\<close>
  instead; its generic message is \<^verbatim>\<open>Server error (\<close>, the status and \<^verbatim>\<open>)\<close>, also
  for a body that does not parse; and whatever message it arrives at is replaced by
  \<^verbatim>\<open>Cannot reach server. Is run_server.py running?\<close> when it contains
  \<^verbatim>\<open>Failed to fetch\<close>, which is what \<open>or_cannot_reach\<close> does.
\<close>

theorem failed_response_message:
  "(file_state s = Some f \<and>
    fetch w (analyze_request (VITE_API_URL w) f) = Response status b \<and>
    \<not> response_ok status \<longrightarrow>
      (b = NotJson m \<longrightarrow>
         shows_error (js w) (fst (analyze w s)) (JStr (or_connect_failed m))) \<and>
      (b = Json d \<and> (d = JNull \<or> d = JUndefined) \<longrightarrow>
         shows_error (js w) (fst (analyze w s))
           (JStr (or_connect_failed (nullReadMessage (js w) ''error'')))) \<and>
      (b = Json d \<and> d \<noteq> JNull \<and> d \<noteq> JUndefined \<longrightarrow>
         shows_error (js w) (fst (analyze w s))
           (JStr (or_connect_failed (js_ToString (js w)
              (js_or (lookup d ''error'') (JStr (''API error: '' @ decimal status)))))) \<and>
         (lookup d ''error'' = JStr m \<and> m \<noteq> [] \<longrightarrow>
            shows_error (js w) (fst (analyze w s)) (JStr m)) \<and>
         (\<not> truthy (lookup d ''error'') \<longrightarrow>
            shows_error (js w) (fst (analyze w s))
              (JStr (''API error: '' @ decimal status))))) \<and>
   (selectedFile v = Some f \<and>
    fetch w (predict_request f) = Response status b \<and>
    \<not> response_ok status \<longrightarrow>
      (b = NotJson m \<longrightarrow>
         status_shown (fst (predict_click w v)) =
           Some (''Server error ('' @ decimal status @ '')'')) \<and>
      (b = Json d \<and> (d = JNull \<or> d = JUndefined) \<longrightarrow>
         status_shown (fst (predict_click w v)) =
           Some (or_cannot_reach (nullReadMessage (js w) ''detail''))) \<and>
      (b = Json d \<and> d \<noteq> JNull \<and> d \<noteq> JUndefined \<longrightarrow>
         status_shown (fst (predict_click w v)) =
           Some (or_cannot_reach (js_ToString (js w)
              (js_or (lookup d ''detail'')
                 (JStr (''Server error ('' @ decimal status @ '')''))))) \<and>
         (lookup d ''detail'' = JStr m \<and> m \<noteq> [] \<longrightarrow>
            status_shown (fst (predict_click w v)) = Some (or_cannot_reach m)) \<and>
         (\<not> truthy (lookup d ''detail'') \<longrightarrow>
            status_shown (fst (predict_click w v)) =
              Some (''Server error ('' @ decimal status @ '')''))))"
proof (intro conjI impI)
  let ?s = "fst (analyze w s)"
  assume h: "file_state s = Some f \<and>
    fetch w (analyze_request (VITE_API_URL w) f) = Response status b \<and>
    \<not> response_ok status"
  then have f: "file_state s = Some f" by simp
  {
    assume "b = NotJson m"
    with h have "analyze_try (js w) (fetch w (analyze_request (VITE_API_URL w) f))
        (startTime w) (endTime w) = Inl (Exn m)"
      by (simp add: try_not_json)
    from caught_shows [OF f this]
    show "shows_error (js w) ?s (JStr (or_connect_failed m))" .
  }
  {
    assume "b = Json d \<and> (d = JNull \<or> d = JUndefined)"
    with h have "analyze_try (js w) (fetch w (analyze_request (VITE_API_URL w) f))
        (startTime w) (endTime w) = Inl (Exn (nullReadMessage (js w) ''error''))"
      using try_null_or_undefined [of d "js w" status] by simp
    from caught_shows [OF f this]
    show "shows_error (js w) ?s (JStr (or_connect_failed (nullReadMessage (js w) ''error'')))" .
  }
  {
    assume d: "b = Json d \<and> d \<noteq> JNull \<and> d \<noteq> JUndefined"
    with h have "analyze_try (js w) (fetch w (analyze_request (VITE_API_URL w) f))
        (startTime w) (endTime w) =
        Inl (Exn (js_ToString (js w)
          (js_or (lookup d ''error'') (JStr (''API error: '' @ decimal status)))))"
      by (simp add: try_failed_status)
    from caught_shows [OF f this]
    show g: "shows_error (js w) ?s
        (JStr (or_connect_failed (js_ToString (js w)
           (js_or (lookup d ''error'') (JStr (''API error: '' @ decimal status))))))" .
    {
      assume "lookup d ''error'' = JStr m \<and> m \<noteq> []"
      with g show "shows_error (js w) ?s (JStr m)"
        by (simp add: js_or_def js_ToString_def or_connect_failed_def)
    }
    {
      assume "\<not> truthy (lookup d ''error'')"
      with g show "shows_error (js w) ?s (JStr (''API error: '' @ decimal status))"
        by (simp add: js_or_def js_ToString_def or_connect_failed_def)
    }
  }
next
  let ?v = "fst (predict_click w v)"
  let ?p = "hideStatus (hideResult (v\<lparr>predictBtn_disabled := True, spinner_show := True\<rparr>))"
  assume h: "selectedFile v = Some f \<and>
    fetch w (predict_request f) = Response status b \<and> \<not> response_ok status"
  then have f: "selectedFile v = Some f" by simp
  {
    assume "b = NotJson m"
    with h have "predict_try (js w) (fetch w (predict_request f)) ?p =
        Inl (Exn (''Server error ('' @ decimal status @ '')''))"
      by (simp add: predict_try_unparsed)
    from predict_caught [OF f this]
    show "status_shown ?v = Some (''Server error ('' @ decimal status @ '')'')"
      by (simp only: server_error_or_cannot_reach)
  }
  {
    assume "b = Json d \<and> (d = JNull \<or> d = JUndefined)"
    with h have "predict_try (js w) (fetch w (predict_request f)) ?p =
        Inl (Exn (nullReadMessage (js w) ''detail''))"
      using predict_try_null [of status d "js w" ?p] by simp
    from predict_caught [OF f this]
    show "status_shown ?v = Some (or_cannot_reach (nullReadMessage (js w) ''detail''))" .
  }
  {
    assume d: "b = Json d \<and> d \<noteq> JNull \<and> d \<noteq> JUndefined"
    with h have "predict_try (js w) (fetch w (predict_request f)) ?p =
        Inl (Exn (js_ToString (js w)
          (js_or (lookup d ''detail'') (JStr (''Server error ('' @ decimal status @ '')'')))))"
      by (simp add: predict_try_failed_status)
    from predict_caught [OF f this]
    show g: "status_shown ?v =
        Some (or_cannot_reach (js_ToString (js w)
          (js_or (lookup d ''detail'') (JStr (''Server error ('' @ decimal status @ '')'')))))" .
    {
      assume "lookup d ''detail'' = JStr m \<and> m \<noteq> []"
      with g show "status_shown ?v = Some (or_cannot_reach m)"
        by (simp add: js_or_def js_ToString_def)
    }
    {
      assume "\<not> truthy (lookup d ''detail'')"
      then have "js_ToString (js w)
          (js_or (lookup d ''detail'') (JStr (''Server error ('' @ decimal status @ '')''))) =
          ''Server error ('' @ decimal status @ '')''"
        by (simp add: js_or_def js_ToString_def)
      with g show "status_shown ?v = Some (''Server error ('' @ decimal status @ '')'')"
        by (simp only: server_error_or_cannot_reach)
    }
  }
qed

theorem failed_response_message_witness:
  "shows_error engine0
     (fst (analyze (world_of (Response 400 (Json error_body))) (handleFile clip App_init)))
     (JStr ''Unsupported file format'') \<and>
   shows_error engine0
     (fst (analyze (world_of (Response 404 (Json (JObj [])))) (handleFile clip App_init)))
     (JStr ''API error: 404'') \<and>
   status_shown (fst (predict_click
     (world_of (Response 400 (Json (JObj [(''detail'', JStr ''Unsupported format'')]))))
     (vs_handleFile (Some clip) page0))) = Some ''Unsupported format'' \<and>
   status_shown (fst (predict_click
     (world_of (Response 502 (Json (JObj [(''detail'', JStr ''upstream: Failed to fetch model'')]))))
     (vs_handleFile (Some clip) page0))) =
     Some ''Cannot reach server. Is run_server.py running?'' \<and>
   status_shown (fst (predict_click (world_of (Response 404 (Json (JObj []))))
     (vs_handleFile (Some clip) page0))) = Some ''Server error (404)''"
proof -
  let ?s = "handleFile clip App_init"
  let ?v = "vs_handleFile (Some clip) page0"
  let ?d1 = "JObj [(''detail'', JStr ''Unsupported format'')]"
  let ?d2 = "JObj [(''detail'', JStr ''upstream: Failed to fetch model'')]"
  let ?wa = "world_of (Response 400 (Json error_body))"
  let ?wb = "world_of (Response 404 (Json (JObj [])))"
  let ?wc = "world_of (Response 400 (Json ?d1))"
  let ?wd = "world_of (Response 502 (Json ?d2))"
  have n: "''API error: '' @ decimal 404 = ''API error: 404''"
      "''Server error ('' @ decimal 404 @ '')'' = ''Server error (404)''"
    by (simp_all add: decimal.simps)
  have r1: "or_cannot_reach ''Unsupported format'' = ''Unsupported format''"
    by (simp add: or_cannot_reach_def)
  have r2: "or_cannot_reach ''upstream: Failed to fetch model'' =
      ''Cannot reach server. Is run_server.py running?''"
    by (simp add: or_cannot_reach_def)
  have r3: "or_cannot_reach ''Server error (404)'' = ''Server error (404)''"
    by (simp add: or_cannot_reach_def)
  have e0: "js ?wa = engine0" "js ?wb = engine0"
    by (simp_all add: world_of_def)
  have ha: "file_state ?s = Some clip \<and>
      fetch ?wa (analyze_request (VITE_API_URL ?wa) clip) = Response 400 (Json error_body) \<and>
      \<not> response_ok 400"
    by (simp add: chosen_file world_of_def response_ok_def)
  have la: "error_body \<noteq> JNull \<and> error_body \<noteq> JUndefined \<and>
      lookup error_body ''error'' = JStr ''Unsupported file format''"
    by (simp add: error_body_def)
  have a: "shows_error engine0 (fst (analyze ?wa ?s)) (JStr ''Unsupported file format'')"
    using failed_response_message [where s = ?s and f = clip and w = ?wa and status = 400
        and b = "Json error_body" and m = "''Unsupported file format''" and d = error_body,
        THEN conjunct1] ha la e0
    by simp
  have hb: "file_state ?s = Some clip \<and>
      fetch ?wb (analyze_request (VITE_API_URL ?wb) clip) = Response 404 (Json (JObj [])) \<and>
      \<not> response_ok 404"
    by (simp add: chosen_file world_of_def response_ok_def)
  have b: "shows_error engine0 (fst (analyze ?wb ?s)) (JStr ''API error: 404'')"
    using failed_response_message [where s = ?s and f = clip and w = ?wb and status = 404
        and b = "Json (JObj [])" and d = "JObj []", THEN conjunct1] hb e0 n(1)
    by simp
  have hc: "selectedFile ?v = Some clip \<and>
      fetch ?wc (predict_request clip) = Response 400 (Json ?d1) \<and> \<not> response_ok 400"
    by (simp add: picked_file world_of_def response_ok_def)
  have c: "status_shown (fst (predict_click ?wc ?v)) = Some ''Unsupported format''"
    using failed_response_message [where v = ?v and f = clip and w = ?wc and status = 400
        and b = "Json ?d1" and m = "''Unsupported format''" and d = ?d1, THEN conjunct2]
      hc r1
    by (simp add: js_or_def js_ToString_def)
  have hd: "selectedFile ?v = Some clip \<and>
      fetch ?wd (predict_request clip) = Response 502 (Json ?d2) \<and> \<not> response_ok 502"
    by (simp add: picked_file world_of_def response_ok_def)
  have d: "status_shown (fst (predict_click ?wd ?v)) =
      Some ''Cannot reach server. Is run_server.py running?''"
    using failed_response_message [where v = ?v and f = clip and w = ?wd and status = 502
        and b = "Json ?d2" and m = "''upstream: Failed to fetch model''" and d = ?d2,
        THEN conjunct2] hd r2
    by (simp add: js_or_def js_ToString_def)
  have he: "selectedFile ?v = Some clip \<and>
      fetch ?wb (predict_request clip) = Response 404 (Json (JObj [])) \<and> \<not> response_ok 404"
    by (simp add: picked_file world_of_def response_ok_def)
  have e: "status_shown (fst (predict_click ?wb ?v)) = Some ''Server error (404)''"
    using failed_response_message [where v = ?v and f = clip and w = ?wb and status = 404
        and b = "Json (JObj [])" and d = "JObj []", THEN conjunct2] he n(2) r3
    by (simp add: js_or_def js_ToString_def)
  from a b c d e show ?thesis by simp
qed

subsection \<open>Files with other extensions\<close>

lemma vs_handleFile_rejects:
  assumes "ext_of f \<notin> set allowed"
  shows "selectedFile (vs_handleFile (Some f) v) = selectedFile v \<and>
         snd (predict_click w (vs_handleFile (Some f) v)) = snd (predict_click w v)"
  using assms
  by (simp add: vs_handleFile_def showStatus_def predict_click_def Let_def
      split: option.splits)

text \<open>
  Claim C3 at the file \<^verbatim>\<open>notes.txt\<close>, whose extension is not an allowed format: the
  React FileUploader hands it to \<^verbatim>\<open>handleFile\<close> without a message, and the analysis
  sends it to the prediction endpoint; the VoiceShield page does not select it and sends
  nothing.
\<close>

theorem FileUploader_accepts_any_extension:
  "ext_of notes_txt = ''txt'' \<and> ext_of notes_txt \<notin> set allowed \<and>
   file_state (handleFiles [notes_txt] App_init) = Some notes_txt \<and>
   error_panel (handleFiles [notes_txt] App_init) = None \<and>
   snd (analyze (world_of (Response 400 (Json error_body)))
          (handleFiles [notes_txt] App_init)) =
     [\<lparr>req_url = ''http://localhost:5000/api/predict'',
       req_method = ''POST'',
       req_body = [(''file'', notes_txt)],
       req_headers = [(''Accept'', ''application/json'')]\<rparr>] \<and>
   selectedFile (vs_handleFile (Some notes_txt) page0) = None \<and>
   snd (predict_click (world_of (Response 400 (Json error_body)))
          (vs_handleFile (Some notes_txt) page0)) = []"
proof -
  have a': "file_state (handleFile notes_txt App_init) = Some notes_txt"
    by (simp add: handleFile_def handleFile_calls_def)
  then have a: "file_state (handleFiles [notes_txt] App_init) = Some notes_txt"
    by simp
  have p: "error_panel (handleFiles [notes_txt] App_init) = None"
    by (simp add: handleFile_def handleFile_calls_def error_panel_def)
  have n: "ext_of notes_txt \<notin> set allowed"
    by (simp add: ext_notes allowed_def)
  have s: "selectedFile (vs_handleFile (Some notes_txt) page0) = None"
    using vs_handleFile_rejects [OF n, of page0] by (simp add: page0_def)
  have q: "snd (predict_click (world_of (Response 400 (Json error_body)))
          (vs_handleFile (Some notes_txt) page0)) = []"
    using s by (simp add: predict_click_def)
  have r: "snd (analyze (world_of (Response 400 (Json error_body)))
          (handleFiles [notes_txt] App_init)) =
     [\<lparr>req_url = ''http://localhost:5000/api/predict'',
       req_method = ''POST'',
       req_body = [(''file'', notes_txt)],
       req_headers = [(''Accept'', ''application/json'')]\<rparr>]"
    by (simp add: analyze_Some [OF a'] analyze_request_def world_of_def API_BASE_URL_def)
  from a p n s q r ext_notes show ?thesis
    by blast
qed

end
